theory Spec2Isabelle
  imports Main "HOL-Library.Multiset"
begin

section \<open>The element tree returned by \<open>Home\<close>\<close>

text \<open>
  \<open>src/frontend/app/page.tsx\<close> exports one function, \<open>Home\<close>, which takes no argument,
  reads no state and returns one JSX expression. A JSX element is its type (an intrinsic
  tag such as \<open>div\<close>, or a component reference such as \<open>Image\<close>), its attributes in
  source order, and its children. An attribute written without a value (\<open>fill\<close>,
  \<open>priority\<close>) is the boolean \<open>true\<close>; every other attribute of the page is a string
  literal. \<open>className\<close> is an attribute like the others.
\<close>

datatype attr_value = Str string | Flag

type_synonym attr = "string \<times> attr_value"

datatype elem_type = Tag string | Comp string

datatype node = Elem elem_type "attr list" "node list" | Txt string

text \<open>
  The tree, element for element as the source has it. JSX text that spans several lines
  is trimmed line by line and the lines are joined by one space; the comment
  \<open>{/* Hero Section */}\<close> produces no child.
\<close>

definition Home :: "unit \<Rightarrow> node" where
  "Home u =
    Elem (Tag ''div'') [(''className'', Str ''flex min-h-screen flex-col items-center justify-center relative overflow-hidden'')]
     [Elem (Comp ''Navbar'') [] [],
      Elem (Tag ''div'') [(''className'', Str ''relative flex flex-col items-center justify-center h-screen w-full text-center px-4 bg-foreground overflow-hidden'')]
       [Elem (Tag ''div'') [(''className'', Str ''absolute inset-0 -z-10'')]
         [Elem (Comp ''Image'')
            [(''src'', Str ''/bg.jpg''),
             (''alt'', Str ''background''),
             (''fill'', Flag),
             (''priority'', Flag),
             (''className'', Str ''object-cover opacity-30 blur-[2px]'')] [],
          Elem (Tag ''div'') [(''className'', Str ''absolute inset-0 bg-gradient-radial from-blue-900/20 via-purple-900/10 to-black mix-blend-overlay'')] []],
        Elem (Tag ''div'') [(''className'', Str ''max-w-4xl flex flex-col items-center justify-center'')]
         [Elem (Tag ''h1'') [(''className'', Str ''text-5xl font-weird text-white'')] [Txt ''Start creating.''],
          Elem (Tag ''p'') [] [Txt ''Transform Hours of Footage into Minutes of Magic.'']]],
      Elem (Tag ''div'') [(''className'', Str ''h-screen max-w-5xl flex flex-col items-center justify-start px-4 text-center'')]
       [Elem (Tag ''div'') [(''className'', Str ''flex flex-col justify-center items-center mt-32 gap-4'')]
         [Elem (Tag ''h1'') [(''className'', Str ''font-serif text-7xl'')]
            [Txt ''Create short videos from long ones in a single click''],
          Elem (Tag ''p'') [(''className'', Str ''text-muted-foreground font-sans'')]
            [Txt ''A tool that can create short videos from long ones before you can say '',
             Elem (Tag ''span'') [(''className'', Str ''font-weird'')] [Txt ''Adabra Kadabra'']]],
        Elem (Tag ''div'') [(''className'', Str ''h-screen w-full max-w-5xl'')]
         [Elem (Tag ''h1'') [(''className'', Str ''font-serif text-7xl'')]
            [Txt ''Built to work the way humans do''],
          Elem (Tag ''p'') [(''className'', Str ''text-muted-foreground font-sans'')]
            [Txt ''Autocut's multi-pass system utilizes Whisper model and Diarization for '',
             Elem (Tag ''span'') [(''className'', Str ''font-weird'')] [Txt ''seamless''],
             Txt '' video editing.'']]]]"

section \<open>Reading the tree\<close>

text \<open>A node is addressed by the child indices leading to it from the root.\<close>

type_synonym path = "nat list"

fun children :: "node \<Rightarrow> node list" where
  "children (Elem ty as cs) = cs"
| "children (Txt s) = []"

fun attrs :: "node \<Rightarrow> attr list" where
  "attrs (Elem ty as cs) = as"
| "attrs (Txt s) = []"

fun node_at :: "node \<Rightarrow> path \<Rightarrow> node option" where
  "node_at n [] = Some n"
| "node_at n (i # p) =
     (if i < length (children n) then node_at (children n ! i) p else None)"

text \<open>The paths of the elements the specification talks about.\<close>

definition navbar_path :: path where "navbar_path = [0]"
definition hero_path :: path where "hero_path = [1]"
definition layers_path :: path where "layers_path = [1, 0]"
definition image_path :: path where "image_path = [1, 0, 0]"
definition gradient_path :: path where "gradient_path = [1, 0, 1]"
definition hero_text_path :: path where "hero_text_path = [1, 1]"
definition heading_path :: path where "heading_path = [1, 1, 0]"
definition subheading_path :: path where "subheading_path = [1, 1, 1]"
definition sections_path :: path where "sections_path = [2]"
definition section1_path :: path where "section1_path = [2, 0]"
definition section2_path :: path where "section2_path = [2, 1]"

text \<open>
  A \<open>className\<close> string is a list of utility tokens separated by spaces.
\<close>

fun split_tokens :: "string \<Rightarrow> string \<Rightarrow> string list" where
  "split_tokens cur [] = (if cur = [] then [] else [cur])"
| "split_tokens cur (c # cs) =
     (if c = CHR '' ''
      then (if cur = [] then split_tokens [] cs else cur # split_tokens [] cs)
      else split_tokens (cur @ [c]) cs)"

fun lookup_attr :: "attr list \<Rightarrow> string \<Rightarrow> attr_value option" where
  "lookup_attr [] k = None"
| "lookup_attr ((k', v) # as) k = (if k' = k then Some v else lookup_attr as k)"

definition class_tokens :: "node \<Rightarrow> string list" where
  "class_tokens n =
     (case lookup_attr (attrs n) ''className'' of
        Some (Str s) \<Rightarrow> split_tokens [] s
      | _ \<Rightarrow> [])"

definition tokens_at :: "node \<Rightarrow> path \<Rightarrow> string list" where
  "tokens_at root p = (case node_at root p of Some n \<Rightarrow> class_tokens n | None \<Rightarrow> [])"

text \<open>The text of a subtree, in document order.\<close>

fun texts :: "node \<Rightarrow> string list" and texts_list :: "node list \<Rightarrow> string list" where
  "texts (Txt s) = [s]"
| "texts (Elem ty as cs) = texts_list cs"
| "texts_list [] = []"
| "texts_list (c # cs) = texts c @ texts_list cs"

definition texts_at :: "node \<Rightarrow> path \<Rightarrow> string list" where
  "texts_at root p = (case node_at root p of Some n \<Rightarrow> texts n | None \<Rightarrow> [])"

definition attr_at :: "node \<Rightarrow> path \<Rightarrow> string \<Rightarrow> attr_value option" where
  "attr_at root p k = (case node_at root p of Some n \<Rightarrow> lookup_attr (attrs n) k | None \<Rightarrow> None)"

section \<open>The utility tokens\<close>

text \<open>
  The page styles its elements only through utility tokens; what a token means is the
  styling system's business (Tailwind CSS), not the page's. The functions below read the
  token families that decide the claims about the hero: positioning, z-index, opacity,
  blur, blend mode, object fit, overflow, size, backgrounds and gradient stops. A token of
  a family the page does not use is read as the styling system documents it; a token
  outside these families leaves the property at its initial value.
\<close>

fun strip_prefix :: "string \<Rightarrow> string \<Rightarrow> string option" where
  "strip_prefix [] s = Some s"
| "strip_prefix (p # ps) [] = None"
| "strip_prefix (p # ps) (c # cs) = (if p = c then strip_prefix ps cs else None)"

definition digit_val :: "char \<Rightarrow> nat option" where
  "digit_val c =
     (let k = (of_char c :: nat)
      in if 48 \<le> k \<and> k \<le> 57 then Some (k - 48) else None)"

fun parse_digits :: "nat \<Rightarrow> string \<Rightarrow> nat option" where
  "parse_digits acc [] = Some acc"
| "parse_digits acc (c # cs) =
     (case digit_val c of None \<Rightarrow> None | Some d \<Rightarrow> parse_digits (10 * acc + d) cs)"

definition parse_nat :: "string \<Rightarrow> nat option" where
  "parse_nat s = (if s = [] then None else parse_digits 0 s)"

text \<open>The first token of a family decides; the page never repeats a family on an element.\<close>

definition defined :: "'a option \<Rightarrow> bool" where
  "defined x = (case x of None \<Rightarrow> False | Some y \<Rightarrow> True)"

fun first_some :: "('a \<Rightarrow> 'b option) \<Rightarrow> 'a list \<Rightarrow> 'b option" where
  "first_some f [] = None"
| "first_some f (x # xs) = (case f x of Some y \<Rightarrow> Some y | None \<Rightarrow> first_some f xs)"

subsection \<open>Positioning and z-index\<close>

datatype position = Static | Relative | Absolute | Fixed | Sticky

definition position_tok :: "string \<Rightarrow> position option" where
  "position_tok t =
     (if t = ''static'' then Some Static else if t = ''relative'' then Some Relative
      else if t = ''absolute'' then Some Absolute else if t = ''fixed'' then Some Fixed
      else if t = ''sticky'' then Some Sticky else None)"

definition position_of :: "string list \<Rightarrow> position" where
  "position_of ts = (case first_some position_tok ts of Some p \<Rightarrow> p | None \<Rightarrow> Static)"

definition positioned :: "string list \<Rightarrow> bool" where
  "positioned ts = (position_of ts \<noteq> Static)"

text \<open>\<open>z-N\<close> is z-index \<open>N\<close>, \<open>-z-N\<close> is \<open>-N\<close>; without such a token z-index is \<open>auto\<close>.\<close>

definition z_tok :: "string \<Rightarrow> int option" where
  "z_tok t =
     (case strip_prefix ''-z-'' t of
        Some r \<Rightarrow> map_option (\<lambda>n. - int n) (parse_nat r)
      | None \<Rightarrow>
          (case strip_prefix ''z-'' t of
             Some r \<Rightarrow> map_option int (parse_nat r)
           | None \<Rightarrow> None))"

definition z_index_of :: "string list \<Rightarrow> int option" where
  "z_index_of ts = first_some z_tok ts"

subsection \<open>Opacity, blur, blend mode, isolation\<close>

text \<open>\<open>opacity-N\<close> is an opacity of \<open>N\<close> percent.\<close>

definition opacity_tok :: "string \<Rightarrow> nat option" where
  "opacity_tok t = (case strip_prefix ''opacity-'' t of Some r \<Rightarrow> parse_nat r | None \<Rightarrow> None)"

definition opacity_of :: "string list \<Rightarrow> nat" where
  "opacity_of ts = (case first_some opacity_tok ts of Some n \<Rightarrow> n | None \<Rightarrow> 100)"

text \<open>
  \<open>blur\<close> and \<open>blur-R\<close> put a blur filter of radius \<open>R\<close> on the element itself
  (\<open>backdrop-blur\<close> is another property and another family); \<open>blur-none\<close> removes it.
\<close>

definition blur_tok :: "string \<Rightarrow> string option" where
  "blur_tok t =
     (if t = ''blur'' then Some ''default''
      else case strip_prefix ''blur-'' t of
             Some r \<Rightarrow> (if r = ''none'' then None else Some r)
           | None \<Rightarrow> None)"

definition blur_of :: "string list \<Rightarrow> string option" where
  "blur_of ts = first_some blur_tok ts"

definition blend_tok :: "string \<Rightarrow> string option" where
  "blend_tok t = strip_prefix ''mix-blend-'' t"

definition blend_modes :: "string list \<Rightarrow> string list" where
  "blend_modes ts = List.map_filter blend_tok ts"

definition blends :: "string list \<Rightarrow> bool" where
  "blends ts = list_ex (\<lambda>m. m \<noteq> ''normal'') (blend_modes ts)"

text \<open>
  An element establishes a stacking context when it is positioned with a z-index other
  than \<open>auto\<close>, when its position is fixed or sticky, when its opacity is below one, when
  it has a filter or a blend mode other than \<open>normal\<close>, or when it is isolated. A
  stacking context is an isolated group for blending: what is inside blends only with
  what is inside.
\<close>

definition stacking_context :: "string list \<Rightarrow> bool" where
  "stacking_context ts =
     ((positioned ts \<and> defined (z_index_of ts))
      \<or> position_of ts = Fixed \<or> position_of ts = Sticky
      \<or> opacity_of ts < 100
      \<or> defined (blur_of ts)
      \<or> blends ts
      \<or> ''isolate'' \<in> set ts)"

text \<open>The z-index an element is stacked at: z-index applies to positioned elements only.\<close>

definition stack_level :: "string list \<Rightarrow> int" where
  "stack_level ts =
     (if positioned ts then (case z_index_of ts of Some z \<Rightarrow> z | None \<Rightarrow> 0) else 0)"

subsection \<open>Backgrounds and gradients\<close>

text \<open>
  A colour is its name in the palette and its alpha in percent: \<open>blue-900/20\<close> is
  \<open>blue-900\<close> at 20 percent, a colour without a modifier is fully opaque. What a
  name of the palette looks like (\<open>foreground\<close>, say) is the configuration's business.
\<close>

type_synonym colour = "string \<times> nat"

fun split_slash :: "string \<Rightarrow> string \<times> string option" where
  "split_slash [] = ([], None)"
| "split_slash (c # cs) =
     (if c = CHR ''/'' then ([], Some cs)
      else (case split_slash cs of (a, b) \<Rightarrow> (c # a, b)))"

definition parse_colour :: "string \<Rightarrow> colour option" where
  "parse_colour s =
     (case split_slash s of
        (name, None) \<Rightarrow> Some (name, if name = ''transparent'' then 0 else 100)
      | (name, Some a) \<Rightarrow> map_option (\<lambda>n. (name, n)) (parse_nat a))"

text \<open>
  Modelled from the spec: the utility \<open>bg-gradient-radial\<close> is declared by the
  repository's styling configuration, which is not among the sources; the specification
  describes the layer that carries it as a radial gradient. \<open>bg-gradient-K\<close> sets a
  background image, a gradient of kind \<open>K\<close>. Its colour stops are \<open>from-C\<close>, \<open>via-C\<close>
  and \<open>to-C\<close>, in that order from the first stop to the last: from the centre to the edge
  for a radial gradient.
\<close>

definition gradient_kind :: "string list \<Rightarrow> string option" where
  "gradient_kind ts = first_some (strip_prefix ''bg-gradient-'') ts"

definition stop_tok :: "string \<Rightarrow> string \<Rightarrow> colour option" where
  "stop_tok pre t = (case strip_prefix pre t of Some r \<Rightarrow> parse_colour r | None \<Rightarrow> None)"

definition gradient_stops :: "string list \<Rightarrow> colour list" where
  "gradient_stops ts =
     List.map_filter (stop_tok ''from-'') ts @ List.map_filter (stop_tok ''via-'') ts
     @ List.map_filter (stop_tok ''to-'') ts"

text \<open>
  The other \<open>bg-\<close> tokens set a background colour, but for the ones that set how a
  background image is placed, repeated, clipped or blended.
\<close>

definition bg_keywords :: "string list" where
  "bg_keywords =
     [''fixed'', ''local'', ''scroll'', ''auto'', ''cover'', ''contain'', ''none'',
      ''repeat'', ''no-repeat'', ''repeat-x'', ''repeat-y'', ''repeat-round'', ''repeat-space'',
      ''bottom'', ''center'', ''left'', ''left-bottom'', ''left-top'',
      ''right'', ''right-bottom'', ''right-top'', ''top'']"

definition bg_keyword_families :: "string list" where
  "bg_keyword_families = [''gradient-'', ''clip-'', ''origin-'', ''blend-'', ''opacity-'']"

definition bg_colour_tok :: "string \<Rightarrow> colour option" where
  "bg_colour_tok t =
     (case strip_prefix ''bg-'' t of
        None \<Rightarrow> None
      | Some r \<Rightarrow>
          (if r \<in> set bg_keywords \<or> list_ex (\<lambda>f. defined (strip_prefix f r)) bg_keyword_families
           then None else parse_colour r))"

definition bg_colour :: "string list \<Rightarrow> colour option" where
  "bg_colour ts = first_some bg_colour_tok ts"

definition has_background :: "string list \<Rightarrow> bool" where
  "has_background ts = (defined (bg_colour ts) \<or> defined (gradient_kind ts))"

subsection \<open>Object fit, overflow, size, centring\<close>

definition object_fit_tok :: "string \<Rightarrow> string option" where
  "object_fit_tok t =
     (case strip_prefix ''object-'' t of
        None \<Rightarrow> None
      | Some r \<Rightarrow>
          (if r \<in> set [''contain'', ''cover'', ''fill'', ''none'', ''scale-down'']
           then Some r else None))"

definition object_fit :: "string list \<Rightarrow> string option" where
  "object_fit ts = first_some object_fit_tok ts"

text \<open>Every overflow value but \<open>visible\<close> clips what leaves the box.\<close>

definition clips :: "string list \<Rightarrow> bool" where
  "clips ts =
     list_ex (\<lambda>t. t \<in> set [''overflow-hidden'', ''overflow-clip'', ''overflow-auto'', ''overflow-scroll'']) ts"

text \<open>\<open>inset-0\<close> pins the four edges of a positioned box to its containing block.\<close>

definition fills_containing_block :: "string list \<Rightarrow> bool" where
  "fills_containing_block ts =
     ((position_of ts = Absolute \<or> position_of ts = Fixed) \<and> ''inset-0'' \<in> set ts)"

text \<open>
  Sizes, in pixels. \<open>h-screen\<close> is the height of the viewport and \<open>w-screen\<close> its width;
  \<open>w-full\<close> is the whole width of the containing block. Without a width token an
  in-flow block takes the whole width too, unless its parent is a flex container that
  does not stretch it: a row, or a column that aligns its items. Any other case (another
  size token, a \<open>max-w-\<close> clamp, a box out of the flow) is left undecided, \<open>None\<close>.
  Boxes are border boxes: padding does not add to a given size, and it narrows the width
  left for the children. \<open>px-N\<close> and \<open>p-N\<close> pad each side by \<open>N\<close> quarter-rems, that is
  \<open>4 * N\<close> pixels.
\<close>

definition has_family :: "string \<Rightarrow> string list \<Rightarrow> bool" where
  "has_family pre ts = list_ex (\<lambda>t. defined (strip_prefix pre t)) ts"

definition display_flex :: "string list \<Rightarrow> bool" where
  "display_flex ts = (''flex'' \<in> set ts \<or> ''inline-flex'' \<in> set ts)"

definition stretches_items :: "string list \<Rightarrow> bool" where
  "stretches_items ts =
     (if display_flex ts
      then ''flex-col'' \<in> set ts
           \<and> (if has_family ''items-'' ts then ''items-stretch'' \<in> set ts else True)
      else True)"

definition used_height :: "nat \<Rightarrow> string list \<Rightarrow> nat option" where
  "used_height vh ts = (if ''h-screen'' \<in> set ts then Some vh else None)"

definition used_width :: "nat \<Rightarrow> nat option \<Rightarrow> string list \<Rightarrow> string list \<Rightarrow> nat option" where
  "used_width vw avail parent_ts ts =
     (if has_family ''max-w-'' ts \<or> has_family ''min-w-'' ts then None
      else if ''w-screen'' \<in> set ts then Some vw
      else if ''w-full'' \<in> set ts then avail
      else if has_family ''w-'' ts then None
      else if position_of ts = Absolute \<or> position_of ts = Fixed then None
      else if stretches_items parent_ts then avail
      else None)"

definition side_padding_tok :: "string \<Rightarrow> nat option" where
  "side_padding_tok t =
     (case strip_prefix ''px-'' t of
        Some r \<Rightarrow> map_option (\<lambda>n. 4 * n) (parse_nat r)
      | None \<Rightarrow>
          (case strip_prefix ''p-'' t of
             Some r \<Rightarrow> map_option (\<lambda>n. 4 * n) (parse_nat r)
           | None \<Rightarrow> None))"

definition content_width :: "nat option \<Rightarrow> string list \<Rightarrow> nat option" where
  "content_width w ts =
     (if has_family ''pl-'' ts \<or> has_family ''pr-'' ts \<or> has_family ''ps-'' ts \<or> has_family ''pe-'' ts
      then None
      else case first_some side_padding_tok ts of
             None \<Rightarrow> (if has_family ''px-'' ts \<or> has_family ''p-'' ts then None else w)
           | Some d \<Rightarrow> map_option (\<lambda>n. n - 2 * d) w)"

text \<open>
  The box of the element at a path, as (width, height), for a viewport of \<open>vw\<close> by \<open>vh\<close>
  pixels. The root of the page is laid out as a block in the document body, whose width
  is the viewport's.
\<close>

fun box_down :: "nat \<Rightarrow> nat \<Rightarrow> nat option \<Rightarrow> string list \<Rightarrow> node \<Rightarrow> path \<Rightarrow> (nat option \<times> nat option) option" where
  "box_down vw vh avail parent_ts n [] =
     Some (used_width vw avail parent_ts (class_tokens n), used_height vh (class_tokens n))"
| "box_down vw vh avail parent_ts n (i # p) =
     (if i < length (children n)
      then box_down vw vh
             (content_width (used_width vw avail parent_ts (class_tokens n)) (class_tokens n))
             (class_tokens n) (children n ! i) p
      else None)"

definition box_at :: "nat \<Rightarrow> nat \<Rightarrow> node \<Rightarrow> path \<Rightarrow> (nat option \<times> nat option) option" where
  "box_at vw vh root p = box_down vw vh (Some vw) [] root p"

text \<open>
  A flex container with \<open>justify-center\<close> centres its in-flow items along its main axis
  and with \<open>items-center\<close> along its cross axis; with both, whatever its direction, a
  single in-flow item sits in the middle of the container horizontally and vertically.
  A box positioned absolutely or fixed is out of the flow and is not a flex item.
\<close>

definition in_flow :: "string list \<Rightarrow> bool" where
  "in_flow ts = (position_of ts \<noteq> Absolute \<and> position_of ts \<noteq> Fixed)"

definition centres_items :: "string list \<Rightarrow> bool" where
  "centres_items ts =
     (display_flex ts \<and> ''justify-center'' \<in> set ts \<and> ''items-center'' \<in> set ts)"

fun flow_children :: "nat \<Rightarrow> node list \<Rightarrow> nat list" where
  "flow_children i [] = []"
| "flow_children i (c # cs) =
     (if in_flow (class_tokens c) then i # flow_children (Suc i) cs
      else flow_children (Suc i) cs)"

definition flow_items_at :: "node \<Rightarrow> path \<Rightarrow> path list" where
  "flow_items_at root p =
     (case node_at root p of
        Some n \<Rightarrow> map (\<lambda>i. p @ [i]) (flow_children 0 (children n))
      | None \<Rightarrow> [])"

section \<open>Paint order\<close>

text \<open>
  What the page paints, bottom to top. A layer is the background of an element (its
  colour or its gradient) or a content box: a run of text, or what a component paints
  where it stands (the image of \<open>Image\<close>, the bar of \<open>Navbar\<close>).
\<close>

datatype layer = Background path | Content path

fun layer_path :: "layer \<Rightarrow> path" where
  "layer_path (Background p) = p"
| "layer_path (Content p) = p"

text \<open>
  The painting order of a stacking context: its own background, then the stacking
  contexts of negative z-index inside it (lowest first), then the in-flow content that is
  not positioned, then the positioned descendants of z-index \<open>auto\<close> or zero and the
  other stacking contexts of level zero in tree order, then the stacking contexts of
  positive z-index. A positioned element of z-index \<open>auto\<close> is painted in one piece
  with its in-flow content, but the positioned descendants and the stacking contexts
  inside it belong to the stacking context around it. A stacking context is painted in
  one piece, at its level, in the context around it. In-flow content is taken in tree
  order, the background of an element before what the element holds.

  \<open>contrib\<close> is what a subtree hands to the stacking context around it.
\<close>

record contrib =
  below :: "(int \<times> layer list) list"
  flow :: "layer list"
  level0 :: "layer list"
  above :: "(int \<times> layer list) list"

definition no_contrib :: contrib where
  "no_contrib = \<lparr>below = [], flow = [], level0 = [], above = []\<rparr>"

definition merge :: "contrib \<Rightarrow> contrib \<Rightarrow> contrib" where
  "merge a b =
     \<lparr>below = below a @ below b, flow = flow a @ flow b,
      level0 = level0 a @ level0 b, above = above a @ above b\<rparr>"

definition by_level :: "(int \<times> layer list) list \<Rightarrow> layer list" where
  "by_level xs = concat (map snd (sort_key fst xs))"

definition paint_context :: "layer list \<Rightarrow> contrib \<Rightarrow> layer list" where
  "paint_context own sub = own @ by_level (below sub) @ flow sub @ level0 sub @ by_level (above sub)"

definition own_layers :: "path \<Rightarrow> elem_type \<Rightarrow> string list \<Rightarrow> layer list" where
  "own_layers p ty ts =
     (if has_background ts then [Background p] else [])
     @ (case ty of Comp c \<Rightarrow> [Content p] | Tag t \<Rightarrow> [])"

definition place :: "string list \<Rightarrow> layer list \<Rightarrow> contrib \<Rightarrow> contrib" where
  "place ts own sub =
     (if stacking_context ts then
        (if stack_level ts < 0
           then no_contrib\<lparr>below := [(stack_level ts, paint_context own sub)]\<rparr>
         else if stack_level ts = 0
           then no_contrib\<lparr>level0 := paint_context own sub\<rparr>
         else no_contrib\<lparr>above := [(stack_level ts, paint_context own sub)]\<rparr>)
      else if positioned ts then
        \<lparr>below = below sub, flow = [], level0 = own @ flow sub @ level0 sub, above = above sub\<rparr>
      else
        \<lparr>below = below sub, flow = own @ flow sub, level0 = level0 sub, above = above sub\<rparr>)"

fun collect :: "path \<Rightarrow> node \<Rightarrow> contrib"
  and collect_list :: "path \<Rightarrow> nat \<Rightarrow> node list \<Rightarrow> contrib" where
  "collect p (Txt s) = no_contrib\<lparr>flow := [Content p]\<rparr>"
| "collect p (Elem ty as cs) =
     place (class_tokens (Elem ty as cs)) (own_layers p ty (class_tokens (Elem ty as cs)))
       (collect_list p 0 cs)"
| "collect_list p i [] = no_contrib"
| "collect_list p i (c # cs) = merge (collect (p @ [i]) c) (collect_list p (Suc i) cs)"

text \<open>
  The page's layers in the stacking context around the page (the document's), bottom to
  top.
\<close>

definition paint_page :: "node \<Rightarrow> layer list" where
  "paint_page root = paint_context [] (collect [] root)"

text \<open>The layers painted inside the stacking context that the element at a path establishes.\<close>

definition paint_group :: "node \<Rightarrow> path \<Rightarrow> layer list" where
  "paint_group root p =
     (case node_at root p of
        Some (Elem ty as cs) \<Rightarrow>
          paint_context (own_layers p ty (class_tokens (Elem ty as cs))) (collect_list p 0 cs)
      | _ \<Rightarrow> [])"

text \<open>The position of a layer in a paint list, counted from the bottom.\<close>

fun index_of :: "'a \<Rightarrow> 'a list \<Rightarrow> nat option" where
  "index_of x [] = None"
| "index_of x (y # ys) = (if x = y then Some 0 else map_option Suc (index_of x ys))"

fun painted_below :: "layer \<Rightarrow> layer \<Rightarrow> layer list \<Rightarrow> bool" where
  "painted_below a b ls =
     (case (index_of a ls, index_of b ls) of
        (Some i, Some j) \<Rightarrow> i < j
      | _ \<Rightarrow> False)"

text \<open>
  The group an element blends in: the nearest proper ancestor that establishes a stacking
  context, or the page's own context (\<open>None\<close>) when there is none. The backdrop of the
  element is what that group has painted under it.
\<close>

fun proper_prefixes :: "path \<Rightarrow> path list" where
  "proper_prefixes [] = []"
| "proper_prefixes (i # p) = [] # map ((#) i) (proper_prefixes p)"

definition blend_group :: "node \<Rightarrow> path \<Rightarrow> path option" where
  "blend_group root p =
     (case filter (\<lambda>q. stacking_context (tokens_at root q)) (rev (proper_prefixes p)) of
        [] \<Rightarrow> None
      | q # qs \<Rightarrow> Some q)"

definition first_layer_of :: "path \<Rightarrow> layer list \<Rightarrow> layer list" where
  "first_layer_of p ls = takeWhile (\<lambda>l. layer_path l \<noteq> p) ls"

definition backdrop :: "node \<Rightarrow> path \<Rightarrow> layer list" where
  "backdrop root p =
     (case blend_group root p of
        Some q \<Rightarrow> first_layer_of p (paint_group root q)
      | None \<Rightarrow> first_layer_of p (paint_page root))"

section \<open>Clipping\<close>

text \<open>
  An element that clips its overflow clips every descendant whose chain of containing
  blocks passes through it. The containing block of an in-flow or relatively positioned
  box is its parent's box; of an absolutely positioned box, the nearest positioned
  ancestor; of a fixed box, the viewport. \<open>escaping\<close> lists the descendants of the
  element at a path that its clipping does not reach: \<open>inflow\<close> says whether a child in
  the flow is reached, \<open>absolute\<close> whether an absolutely positioned one is.
\<close>

fun escapes :: "bool \<Rightarrow> bool \<Rightarrow> path \<Rightarrow> node \<Rightarrow> path list"
  and escapes_list :: "bool \<Rightarrow> bool \<Rightarrow> path \<Rightarrow> nat \<Rightarrow> node list \<Rightarrow> path list" where
  "escapes inflow absolute p (Txt s) = (if inflow then [] else [p])"
| "escapes inflow absolute p (Elem ty as cs) =
     (let ts = class_tokens (Elem ty as cs);
          reached = (if position_of ts = Fixed then False
                     else if position_of ts = Absolute then absolute else inflow)
      in (if reached then [] else [p])
         @ escapes_list reached (if positioned ts then reached else absolute) p 0 cs)"
| "escapes_list inflow absolute p i [] = []"
| "escapes_list inflow absolute p i (c # cs) =
     escapes inflow absolute (p @ [i]) c @ escapes_list inflow absolute p (Suc i) cs"

definition escaping :: "node \<Rightarrow> path \<Rightarrow> path list" where
  "escaping root p =
     (case node_at root p of
        Some n \<Rightarrow> escapes_list True (positioned (class_tokens n)) p 0 (children n)
      | None \<Rightarrow> [])"

section \<open>Walking the tree\<close>

text \<open>Every element path of a tree, in document order, and the ancestors of a path.\<close>

fun element_paths :: "path \<Rightarrow> node \<Rightarrow> path list"
  and element_paths_list :: "path \<Rightarrow> nat \<Rightarrow> node list \<Rightarrow> path list" where
  "element_paths p (Txt s) = []"
| "element_paths p (Elem ty as cs) = p # element_paths_list p 0 cs"
| "element_paths_list p i [] = []"
| "element_paths_list p i (c # cs) = element_paths (p @ [i]) c @ element_paths_list p (Suc i) cs"

definition paths_where :: "(string list \<Rightarrow> bool) \<Rightarrow> node \<Rightarrow> path list" where
  "paths_where P root = filter (\<lambda>p. P (tokens_at root p)) (element_paths [] root)"

definition ancestors_or_self :: "path \<Rightarrow> path list" where
  "ancestors_or_self p = proper_prefixes p @ [p]"

definition subtree_paths :: "node \<Rightarrow> path \<Rightarrow> path list" where
  "subtree_paths root p = (case node_at root p of Some n \<Rightarrow> element_paths p n | None \<Rightarrow> [])"

definition elem_type_at :: "node \<Rightarrow> path \<Rightarrow> elem_type option" where
  "elem_type_at root p =
     (case node_at root p of Some (Elem ty as cs) \<Rightarrow> Some ty | _ \<Rightarrow> None)"

definition attr_names_at :: "node \<Rightarrow> path \<Rightarrow> string list" where
  "attr_names_at root p = (case node_at root p of Some n \<Rightarrow> map fst (attrs n) | None \<Rightarrow> [])"

text \<open>
  The containing block of the element at a path: the parent for a box in the flow or
  positioned relatively, the nearest positioned proper ancestor for a box positioned
  absolutely, and \<open>None\<close> where it is not an element of the page (the viewport of a fixed
  box, the document of the root).
\<close>

definition containing_block :: "node \<Rightarrow> path \<Rightarrow> path option" where
  "containing_block root p =
     (if p = [] \<or> position_of (tokens_at root p) = Fixed then None
      else if position_of (tokens_at root p) = Absolute then
        (case filter (\<lambda>q. positioned (tokens_at root q)) (rev (proper_prefixes p)) of
           [] \<Rightarrow> None
         | q # qs \<Rightarrow> Some q)
      else Some (butlast p))"

text \<open>An element carries a visual effect of its own when it is translucent or blurred.\<close>

definition has_effect :: "string list \<Rightarrow> bool" where
  "has_effect ts = (opacity_of ts < 100 \<or> defined (blur_of ts))"

section \<open>What the image component paints\<close>





section \<open>Every layer is painted once\<close>

text \<open>
  The layers of a tree in document order, whatever their stacking, and the layers a
  contribution holds.
\<close>

fun all_layers :: "path \<Rightarrow> node \<Rightarrow> layer list"
  and all_layers_list :: "path \<Rightarrow> nat \<Rightarrow> node list \<Rightarrow> layer list" where
  "all_layers p (Txt s) = [Content p]"
| "all_layers p (Elem ty as cs) =
     own_layers p ty (class_tokens (Elem ty as cs)) @ all_layers_list p 0 cs"
| "all_layers_list p i [] = []"
| "all_layers_list p i (c # cs) = all_layers (p @ [i]) c @ all_layers_list p (Suc i) cs"

definition contrib_layers :: "contrib \<Rightarrow> layer list" where
  "contrib_layers c =
     concat (map snd (below c)) @ flow c @ level0 c @ concat (map snd (above c))"

text \<open>
  Stacking reorders the layers and does nothing else: the paint list of any tree is a
  permutation of its layers.
\<close>

lemma mset_by_level: "mset (by_level xs) = mset (concat (map snd xs))"
proof -
  have "mset (concat (map snd (sort_key fst xs)))
        = sum_mset (image_mset (mset \<circ> snd) (mset (sort_key fst xs)))"
    by (simp add: mset_concat flip: sum_mset_sum_list)
  also have "\<dots> = sum_mset (image_mset (mset \<circ> snd) (mset xs))"
    by simp
  also have "\<dots> = mset (concat (map snd xs))"
    by (simp add: mset_concat flip: sum_mset_sum_list)
  finally show ?thesis by (simp add: by_level_def)
qed

lemma mset_paint_context:
  "mset (paint_context own sub) = mset own + mset (contrib_layers sub)"
  by (simp add: paint_context_def contrib_layers_def mset_by_level)

lemma contrib_layers_merge:
  "mset (contrib_layers (merge a b)) = mset (contrib_layers a) + mset (contrib_layers b)"
  by (simp add: merge_def contrib_layers_def)

lemma contrib_layers_place:
  "mset (contrib_layers (place ts own sub)) = mset own + mset (contrib_layers sub)"
  by (simp add: place_def contrib_layers_def no_contrib_def
        mset_paint_context [unfolded contrib_layers_def])

lemma mset_collect:
  "mset (contrib_layers (collect p n)) = mset (all_layers p n)"
  "mset (contrib_layers (collect_list p i cs)) = mset (all_layers_list p i cs)"
proof (induction p n and p i cs rule: collect_collect_list.induct)
  case (1 p s)
  show ?case by (simp add: contrib_layers_def no_contrib_def)
next
  case (2 p ty as cs)
  then show ?case by (simp add: contrib_layers_place)
next
  case (3 p i)
  show ?case by (simp add: contrib_layers_def no_contrib_def)
next
  case (4 p i c cs)
  then show ?case by (simp add: contrib_layers_merge)
qed

lemma paint_page_all_layers: "mset (paint_page root) = mset (all_layers [] root)"
  by (simp add: paint_page_def mset_paint_context mset_collect)







section \<open>The hero's layers\<close>

text \<open>
  The whole paint list of the page, bottom to top: the image and the gradient (the group
  of z-index \<open>-10\<close>), then what the root paints in one piece (the navigation bar and the
  text of the two scroll sections), then the hero, positioned after them: its background
  colour and its text.
\<close>

lemma paint_page_Home:
  "paint_page (Home ()) =
     [Content image_path, Background gradient_path, Content navbar_path,
      Content [2, 0, 0, 0], Content [2, 0, 1, 0], Content [2, 0, 1, 1, 0],
      Content [2, 1, 0, 0], Content [2, 1, 1, 0], Content [2, 1, 1, 1, 0], Content [2, 1, 1, 2],
      Background hero_path, Content (heading_path @ [0]), Content (subheading_path @ [0])]"
  by code_simp

text \<open>
  C1. In the paint order of the page the background image lies under the radial
  gradient, and the gradient under the text of the heading and of the subheading. The
  gradient is the layer with the blend mode \<open>overlay\<close>; the group it blends in is the
  container of the two layers, not the page, and what that group has painted under the
  gradient is the image alone.
\<close>

theorem home_stacking_order:
  "painted_below (Content image_path) (Background gradient_path) (paint_page (Home ()))
   \<and> painted_below (Background gradient_path) (Content (heading_path @ [0])) (paint_page (Home ()))
   \<and> painted_below (Background gradient_path) (Content (subheading_path @ [0])) (paint_page (Home ()))
   \<and> node_at (Home ()) (heading_path @ [0]) = Some (Txt ''Start creating.'')
   \<and> node_at (Home ()) (subheading_path @ [0])
       = Some (Txt ''Transform Hours of Footage into Minutes of Magic.'')
   \<and> elem_type_at (Home ()) image_path = Some (Comp ''Image'')
   \<and> gradient_kind (tokens_at (Home ()) gradient_path) = Some ''radial''
   \<and> blend_modes (tokens_at (Home ()) gradient_path) = [''overlay'']
   \<and> blend_group (Home ()) gradient_path = Some layers_path
   \<and> backdrop (Home ()) gradient_path = [Content image_path]"
  by code_simp

text \<open>
  C2. For every viewport, \<open>vw\<close> by \<open>vh\<close> pixels, the box of the hero container is \<open>vw\<close>
  wide and \<open>vh\<close> high; the container clips its overflow, and the clipping reaches every
  descendant (none escapes it), the two layers and the text among them.
\<close>

theorem hero_fills_viewport_and_clips:
  "box_at vw vh (Home ()) hero_path = Some (Some vw, Some vh)
   \<and> clips (tokens_at (Home ()) hero_path)
   \<and> escaping (Home ()) hero_path = []
   \<and> subtree_paths (Home ()) hero_path
       = [hero_path, layers_path, image_path, gradient_path,
          hero_text_path, heading_path, subheading_path]"
  by code_simp

text \<open>
  C3. The blend mode of the gradient layer is \<open>overlay\<close> and nothing else. The gradient
  has no blur; the only element of the page with a blur is the image, which is not the
  gradient nor one of its ancestors, and no ancestor of the gradient has a blur.
\<close>

theorem gradient_overlay_without_blur:
  "blend_modes (tokens_at (Home ()) gradient_path) = [''overlay'']
   \<and> blur_of (tokens_at (Home ()) gradient_path) = None
   \<and> paths_where (\<lambda>ts. defined (blur_of ts)) (Home ()) = [image_path]
   \<and> image_path \<notin> set (ancestors_or_self gradient_path)
   \<and> list_all (\<lambda>q. blur_of (tokens_at (Home ()) q) = None) (ancestors_or_self gradient_path)"
  by code_simp

text \<open>
  C4. The image is fitted with \<open>cover\<close>, has an opacity of 30 percent (strictly between
  0 and 100) and a blur (of radius \<open>2px\<close>); it is asked to fill its container, the
  container of the layers. The gradient fills the same container, which itself fills the
  hero. The gradient is radial; its stops run from \<open>blue-900\<close> (at 20 percent) at the
  centre, through \<open>purple-900\<close> (at 10 percent), to opaque black at the edge.
\<close>

theorem image_and_gradient_styling:
  "object_fit (tokens_at (Home ()) image_path) = Some ''cover''
   \<and> opacity_of (tokens_at (Home ()) image_path) = 30
   \<and> 0 < opacity_of (tokens_at (Home ()) image_path)
   \<and> opacity_of (tokens_at (Home ()) image_path) < 100
   \<and> blur_of (tokens_at (Home ()) image_path) = Some ''[2px]''
   \<and> attr_at (Home ()) image_path ''fill'' = Some Flag
   \<and> containing_block (Home ()) image_path = Some layers_path
   \<and> fills_containing_block (tokens_at (Home ()) gradient_path)
   \<and> containing_block (Home ()) gradient_path = Some layers_path
   \<and> fills_containing_block (tokens_at (Home ()) layers_path)
   \<and> containing_block (Home ()) layers_path = Some hero_path
   \<and> gradient_kind (tokens_at (Home ()) gradient_path) = Some ''radial''
   \<and> gradient_stops (tokens_at (Home ()) gradient_path)
       = [(''blue-900'', 20), (''purple-900'', 10), (''black'', 100)]"
  by code_simp

text \<open>
  C5. The hero container centres its items on both axes and the text block is its only
  item in the flow, so the block sits in the middle of the hero. The text of the heading
  and of the subheading is painted above the image and above the gradient. Neither the
  heading, the subheading nor any of their ancestors is translucent or blurred: the only
  element of the page that is, is the image, and neither the image nor the gradient is
  an ancestor of the text.
\<close>

theorem hero_text_centred_on_top_unaffected:
  "centres_items (tokens_at (Home ()) hero_path)
   \<and> flow_items_at (Home ()) hero_path = [hero_text_path]
   \<and> subtree_paths (Home ()) hero_text_path = [hero_text_path, heading_path, subheading_path]
   \<and> list_all (\<lambda>t. painted_below (Content image_path) t (paint_page (Home ()))
                  \<and> painted_below (Background gradient_path) t (paint_page (Home ())))
        [Content (heading_path @ [0]), Content (subheading_path @ [0])]
   \<and> list_all (\<lambda>q. \<not> has_effect (tokens_at (Home ()) q))
        (ancestors_or_self heading_path @ ancestors_or_self subheading_path)
   \<and> paths_where has_effect (Home ()) = [image_path]
   \<and> image_path \<notin> set (ancestors_or_self heading_path @ ancestors_or_self subheading_path)
   \<and> gradient_path \<notin> set (ancestors_or_self heading_path @ ancestors_or_self subheading_path)"
  by code_simp




text \<open>
  C8, as stated, fails: the attributes handed to \<open>Image\<close> are not exactly the asset
  path, the alt text, \<open>fill\<close> and \<open>priority\<close>.
\<close>

theorem image_props_not_four:
  "attr_names_at (Home ()) image_path \<noteq> [''src'', ''alt'', ''fill'', ''priority'']"
  by code_simp

text \<open>
  C8, amended. \<open>Image\<close> is given exactly five attributes: the asset path, the alt text,
  \<open>fill\<close>, \<open>priority\<close> (both set), and a \<open>className\<close> with the styling tokens of the
  image.
\<close>

theorem image_props:
  "elem_type_at (Home ()) image_path = Some (Comp ''Image'')
   \<and> attr_names_at (Home ()) image_path = [''src'', ''alt'', ''fill'', ''priority'', ''className'']
   \<and> attr_at (Home ()) image_path ''src'' = Some (Str ''/bg.jpg'')
   \<and> attr_at (Home ()) image_path ''alt'' = Some (Str ''background'')
   \<and> attr_at (Home ()) image_path ''fill'' = Some Flag
   \<and> attr_at (Home ()) image_path ''priority'' = Some Flag
   \<and> attr_at (Home ()) image_path ''className''
       = Some (Str ''object-cover opacity-30 blur-[2px]'')"
  by code_simp

text \<open>
  C9. The image and the gradient are the two children of one container, positioned
  absolutely with the token \<open>-z-10\<close>, that is z-index \<open>-10\<close>. The hero container has the
  token \<open>bg-foreground\<close>, a background colour without an alpha modifier, and does not
  establish a stacking context. The container of the layers does, and paints the image
  and the gradient in one piece; in the paint order of the page both lie under the
  background colour of the hero.
\<close>

theorem layers_behind_hero_background:
  "subtree_paths (Home ()) layers_path = [layers_path, image_path, gradient_path]
   \<and> position_of (tokens_at (Home ()) layers_path) = Absolute
   \<and> ''-z-10'' \<in> set (tokens_at (Home ()) layers_path)
   \<and> z_index_of (tokens_at (Home ()) layers_path) = Some (- 10)
   \<and> ''bg-foreground'' \<in> set (tokens_at (Home ()) hero_path)
   \<and> bg_colour (tokens_at (Home ()) hero_path) = Some (''foreground'', 100)
   \<and> \<not> stacking_context (tokens_at (Home ()) hero_path)
   \<and> stacking_context (tokens_at (Home ()) layers_path)
   \<and> paint_group (Home ()) layers_path = [Content image_path, Background gradient_path]
   \<and> painted_below (Content image_path) (Background hero_path) (paint_page (Home ()))
   \<and> painted_below (Background gradient_path) (Background hero_path) (paint_page (Home ()))"
  by code_simp

text \<open>
  C10. What \<open>Home\<close> returns is the same for every call. The heading of the hero is an
  \<open>h1\<close> with the text "Start creating.", the subheading a \<open>p\<close> with the text "Transform
  Hours of Footage into Minutes of Magic."; the image has the source \<open>/bg.jpg\<close> and the
  alt text \<open>background\<close>; the two scroll sections have the texts below, and the text of
  the page is the hero's, then the first section's, then the second's.
\<close>

theorem page_content_fixed:
  "Home u = Home ()
   \<and> elem_type_at (Home ()) heading_path = Some (Tag ''h1'')
   \<and> texts_at (Home ()) heading_path = [''Start creating.'']
   \<and> elem_type_at (Home ()) subheading_path = Some (Tag ''p'')
   \<and> texts_at (Home ()) subheading_path = [''Transform Hours of Footage into Minutes of Magic.'']
   \<and> attr_at (Home ()) image_path ''src'' = Some (Str ''/bg.jpg'')
   \<and> attr_at (Home ()) image_path ''alt'' = Some (Str ''background'')
   \<and> texts_at (Home ()) section1_path =
        [''Create short videos from long ones in a single click'',
         ''A tool that can create short videos from long ones before you can say '',
         ''Adabra Kadabra'']
   \<and> texts_at (Home ()) section2_path =
        [''Built to work the way humans do'',
         ''Autocut's multi-pass system utilizes Whisper model and Diarization for '',
         ''seamless'', '' video editing.'']
   \<and> texts_at (Home ()) sections_path =
        texts_at (Home ()) section1_path @ texts_at (Home ()) section2_path
   \<and> texts (Home ()) = texts_at (Home ()) hero_path @ texts_at (Home ()) sections_path"
  by code_simp

end
